theory Spec2Isabelle
  imports Main
begin

section \<open>Strings of the page\<close>

text \<open>
  A term typed into the search box is a JavaScript string. It is modelled as a
  \<^typ>\<open>string\<close> whose characters are the code units \<open>0\<close> to \<open>255\<close> (Latin-1); terms with
  code units above \<open>255\<close> are outside the model. On this range the two string methods that
  \<open>searchWord\<close> calls are total and are written out below.
\<close>

text \<open>
  \<open>String.prototype.trim\<close> removes white space and line terminators at both ends. Below
  \<open>256\<close> these are TAB, LF, VT, FF, CR, SPACE and NO-BREAK SPACE.
\<close>

definition is_js_whitespace :: "char \<Rightarrow> bool" where
  "is_js_whitespace c =
     (of_char c = (9::nat) \<or> of_char c = (10::nat) \<or> of_char c = (11::nat) \<or>
      of_char c = (12::nat) \<or> of_char c = (13::nat) \<or> of_char c = (32::nat) \<or>
      of_char c = (160::nat))"

definition trim :: "string \<Rightarrow> string" where
  "trim s = rev (dropWhile is_js_whitespace (rev (dropWhile is_js_whitespace s)))"

text \<open>
  \<open>String.prototype.toLowerCase\<close>: below \<open>256\<close> the letters with a lower-case partner are
  \<open>A\<close> to \<open>Z\<close> and \<open>U+00C0\<close> to \<open>U+00DE\<close> without the multiplication sign \<open>U+00D7\<close>; the
  partner is \<open>32\<close> code units higher.
\<close>

definition lower_char :: "char \<Rightarrow> char" where
  "lower_char c =
     (let n = (of_char c :: nat)
      in if (65 \<le> n \<and> n \<le> 90) \<or> (192 \<le> n \<and> n \<le> 214) \<or> (216 \<le> n \<and> n \<le> 222)
         then char_of (n + 32) else c)"

definition toLowerCase :: "string \<Rightarrow> string" where
  "toLowerCase s = map lower_char s"

text \<open>\<open>Array.prototype.join\<close> on an array of strings.\<close>

fun join :: "string \<Rightarrow> string list \<Rightarrow> string" where
  "join sep [] = []"
| "join sep [x] = x"
| "join sep (x # y # ys) = x @ sep @ join sep (y # ys)"

section \<open>The recent-searches list\<close>

text \<open>
  The updater passed to \<open>setSearchHistory\<close> in \<open>searchWord\<close> (App.tsx, lines 52 to 55):
  \<^verbatim>\<open>prev => [word, ...prev.filter(item => item !== word)].slice(0, 5)\<close>.
\<close>

definition updateSearchHistory :: "string \<Rightarrow> string list \<Rightarrow> string list" where
  "updateSearchHistory word_arg prev =
     take 5 (word_arg # filter (\<lambda>item. item \<noteq> word_arg) prev)"

section \<open>The dictionary record\<close>

text \<open>
  The interfaces of App.tsx, lines 4 to 26. An optional field is an \<^typ>\<open>'a option\<close>,
  \<open>None\<close> when the field is absent. The fields \<open>definition\<close> of \<open>Definition\<close> and \<open>text\<close>
  of \<open>Phonetic\<close> are named \<open>definition_text\<close> and \<open>phonetic_text\<close> here.
\<close>

record Definition =
  definition_text :: string
  example :: "string option"
  synonyms :: "string list option"
  antonyms :: "string list option"

record Meaning =
  partOfSpeech :: string
  definitions :: "Definition list"

record Phonetic =
  phonetic_text :: "string option"
  audio :: "string option"

record WordData =
  word :: string
  phonetics :: "Phonetic list"
  meanings :: "Meaning list"
  origin :: "string option"

section \<open>The state of the page\<close>

text \<open>
  The state variable \<open>wordData\<close> is declared \<open>WordData | null\<close>; \<open>setWordData(data[0])\<close>
  also stores \<open>undefined\<close> when the response array is empty.
\<close>

datatype wordData_value = Undefined | Null | Record WordData

text \<open>The five \<open>useState\<close> variables of \<open>App\<close> (lines 29 to 33) and their initial values.\<close>

record ui_state =
  searchTerm :: string
  wordData :: wordData_value
  loading :: bool
  error :: "string option"
  searchHistory :: "string list"

definition initial_state :: ui_state where
  "initial_state =
     \<lparr>searchTerm = [], wordData = Null, loading = False, error = None, searchHistory = []\<rparr>"

text \<open>
  What the page shows (lines 170 and 180): the error box under \<open>error && ...\<close>, the result
  card under \<open>wordData && ...\<close>. A non-empty string and an object are truthy; \<open>null\<close>,
  \<open>undefined\<close> and the empty string are not.
\<close>

definition error_shown :: "ui_state \<Rightarrow> bool" where
  "error_shown s = (case error s of None \<Rightarrow> False | Some m \<Rightarrow> m \<noteq> [])"

definition word_shown :: "ui_state \<Rightarrow> bool" where
  "word_shown s = (case wordData s of Record w \<Rightarrow> True | Null \<Rightarrow> False | Undefined \<Rightarrow> False)"

section \<open>The lookup\<close>

datatype js_error = TypeError | SyntaxError | Error string

text \<open>
  The dictionary service is outside the program, so what it answers is an input of the
  model. \<open>fetch\<close> either rejects (no network) or resolves with a response, which has the
  flag \<open>ok\<close> (a 2xx status) and a body; \<open>response.json()\<close> either rejects (the body is
  not JSON) or resolves with the parsed value. Of the parsed value the program reads
  \<open>data[0]\<close> only; the values modelled are \<open>null\<close> and an array of records.
\<close>

datatype json_value = JNull | JArray "WordData list"

datatype json_outcome = JsonRejects js_error | JsonResolves json_value

datatype fetch_outcome = FetchRejects js_error | FetchResolves bool json_outcome

definition request_url :: "string \<Rightarrow> string" where
  "request_url word_arg = ''https://api.dictionaryapi.dev/api/v2/entries/en/'' @ toLowerCase word_arg"

definition not_found_message :: string where
  "not_found_message = ''Word not found. Please check the spelling and try again.''"

text \<open>\<open>data[0]\<close>: a \<open>TypeError\<close> on \<open>null\<close>, \<open>undefined\<close> on an empty array.\<close>

fun index0 :: "json_value \<Rightarrow> js_error + wordData_value" where
  "index0 JNull = Inl TypeError"
| "index0 (JArray []) = Inr Undefined"
| "index0 (JArray (x # xs)) = Inr (Record x)"

text \<open>
  Lines 42 to 49, the part of the \<open>try\<close> block that can throw: the value handed to
  \<open>setWordData\<close>, or the error that reaches \<open>catch\<close>.
\<close>

fun try_lookup :: "fetch_outcome \<Rightarrow> js_error + wordData_value" where
  "try_lookup (FetchRejects e) = Inl e"
| "try_lookup (FetchResolves ok body) =
     (if \<not> ok then Inl (Error ''Word not found'')
      else case body of JsonRejects e \<Rightarrow> Inl e | JsonResolves data \<Rightarrow> index0 data)"

text \<open>
  \<open>searchWord\<close> up to its first \<open>await\<close> (lines 36 to 42): the guard, the two state
  updates, and the request that is issued, if any.
\<close>

definition searchWord_begin :: "string \<Rightarrow> ui_state \<Rightarrow> ui_state \<times> string option" where
  "searchWord_begin word_arg s =
     (if trim word_arg = [] then (s, None)
      else (s\<lparr>loading := True, error := None\<rparr>, Some (request_url word_arg)))"

text \<open>
  \<open>searchWord\<close> from the moment the request settles (lines 44 to 61): the rest of the
  \<open>try\<close> block, \<open>catch\<close>, and \<open>finally\<close>. The updates are applied to the state of that moment.
\<close>

definition searchWord_settle :: "string \<Rightarrow> fetch_outcome \<Rightarrow> ui_state \<Rightarrow> ui_state" where
  "searchWord_settle word_arg outcome s =
     (case try_lookup outcome of
        Inr d \<Rightarrow>
          s\<lparr>wordData := d,
            searchHistory := updateSearchHistory word_arg (searchHistory s),
            loading := False\<rparr>
      | Inl e \<Rightarrow>
          s\<lparr>error := Some not_found_message, wordData := Null, loading := False\<rparr>)"

text \<open>
  One call of \<open>searchWord\<close> that runs to its end with nothing else happening in between:
  the final state and the request issued.
\<close>

definition searchWord :: "string \<Rightarrow> fetch_outcome \<Rightarrow> ui_state \<Rightarrow> ui_state \<times> string option" where
  "searchWord word_arg outcome s =
     (case searchWord_begin word_arg s of
        (s', None) \<Rightarrow> (s', None)
      | (s', Some url) \<Rightarrow> (searchWord_settle word_arg outcome s', Some url))"

section \<open>The page as a transition system\<close>

text \<open>
  The page reacts to events one at a time. A request that has been issued stays in flight
  until its answer arrives, and nothing cancels it; \<open>in_flight\<close> lists the terms of the
  pending calls of \<open>searchWord\<close> in the order in which they were issued.
\<close>

record page =
  ui :: ui_state
  in_flight :: "string list"

definition initial_page :: page where
  "initial_page = \<lparr>ui = initial_state, in_flight = []\<rparr>"

text \<open>
  \<open>Type t\<close>: the input's \<open>onChange\<close> (line 133). \<open>Submit\<close>: the form's \<open>handleSubmit\<close>
  (lines 64 to 67), which the disabled button (line 140) blocks. \<open>Recent i\<close>: a click on
  the \<open>i\<close>-th recent search (lines 155 to 158). \<open>Settle k outcome\<close>: the \<open>k\<close>-th pending
  request settles with \<open>outcome\<close>; answers may arrive in any order.
\<close>

datatype event = Type string | Submit | Recent nat | Settle nat fetch_outcome

definition submit_disabled :: "ui_state \<Rightarrow> bool" where
  "submit_disabled s = (loading s \<or> trim (searchTerm s) = [])"

definition call_searchWord :: "string \<Rightarrow> page \<Rightarrow> page" where
  "call_searchWord word_arg p =
     (case searchWord_begin word_arg (ui p) of
        (s', None) \<Rightarrow> p\<lparr>ui := s'\<rparr>
      | (s', Some url) \<Rightarrow> \<lparr>ui = s', in_flight = in_flight p @ [word_arg]\<rparr>)"

fun step :: "event \<Rightarrow> page \<Rightarrow> page" where
  "step (Type t) p = p\<lparr>ui := (ui p)\<lparr>searchTerm := t\<rparr>\<rparr>"
| "step Submit p =
     (if submit_disabled (ui p) then p else call_searchWord (searchTerm (ui p)) p)"
| "step (Recent i) p =
     (if i < length (searchHistory (ui p))
      then let recent = searchHistory (ui p) ! i
           in call_searchWord recent (p\<lparr>ui := (ui p)\<lparr>searchTerm := recent\<rparr>\<rparr>)
      else p)"
| "step (Settle k outcome) p =
     (if k < length (in_flight p)
      then \<lparr>ui = searchWord_settle (in_flight p ! k) outcome (ui p),
            in_flight = take k (in_flight p) @ drop (Suc k) (in_flight p)\<rparr>
      else p)"

fun run :: "event list \<Rightarrow> page \<Rightarrow> page" where
  "run [] p = p"
| "run (e # es) p = run es (step e p)"

text \<open>A run is serial when at no moment two requests are in flight.\<close>

fun serial :: "event list \<Rightarrow> page \<Rightarrow> bool" where
  "serial [] p = (length (in_flight p) \<le> 1)"
| "serial (e # es) p = (length (in_flight p) \<le> 1 \<and> serial es (step e p))"

text \<open>
  The claim about what is on the page: not both the result card and the error box.
\<close>

definition at_most_one_shown :: "ui_state \<Rightarrow> bool" where
  "at_most_one_shown s = (\<not> (word_shown s \<and> error_shown s))"

text \<open>
  The invariant of serial runs: with nothing in flight at most one of the two is shown,
  and while a request is in flight the error is cleared.
\<close>

definition settled_or_cleared :: "page \<Rightarrow> bool" where
  "settled_or_cleared p =
     (if in_flight p = [] then at_most_one_shown (ui p) else error (ui p) = None)"

text \<open>The invariant of the recent searches: at most five entries, none twice.\<close>

definition history_ok :: "string list \<Rightarrow> bool" where
  "history_ok h = (length h \<le> 5 \<and> distinct h)"

section \<open>Loading the recent searches at startup\<close>

text \<open>
  The first effect of \<open>App\<close> (lines 100 to 106):
  \<^verbatim>\<open>const saved = localStorage.getItem('dictionaryHistory');\<close>
  \<^verbatim>\<open>if (saved) { setSearchHistory(JSON.parse(saved)); }\<close>
  \<open>getItem\<close> gives \<open>null\<close> (\<open>None\<close>) when the key is missing, the stored text otherwise; the
  empty text is falsy. \<open>JSON.parse\<close> belongs to the platform: what it does with the stored
  text is an input of the model, either it throws a \<open>SyntaxError\<close> (the text is not JSON)
  or it returns a list of strings, as the second effect writes one (the state variable
  is declared \<open>string[]\<close>; other parsed values are outside the model). Nothing around
  the call catches the error, so \<open>Inl\<close> is an effect that throws.
\<close>

datatype parse_outcome = ParseThrows | ParseReturns "string list"

definition load_history :: "string option \<Rightarrow> parse_outcome \<Rightarrow> ui_state \<Rightarrow> js_error + ui_state" where
  "load_history saved parsed s =
     (case saved of
        None \<Rightarrow> Inr s
      | Some stored \<Rightarrow>
          if stored = [] then Inr s
          else (case parsed of
                  ParseThrows \<Rightarrow> Inl SyntaxError
                | ParseReturns v \<Rightarrow> Inr (s\<lparr>searchHistory := v\<rparr>)))"

section \<open>Rendering a record\<close>

text \<open>
  The phonetic spelling under the headword (lines 187 to 189):
  \<^verbatim>\<open>wordData.phonetics.length > 0 && wordData.phonetics[0].text && <p>...[0].text</p>\<close>.
  \<open>None\<close> when no paragraph is rendered.
\<close>

definition phonetic_shown :: "WordData \<Rightarrow> string option" where
  "phonetic_shown w =
     (if length (phonetics w) > 0
      then (case phonetic_text (phonetics w ! 0) of
              None \<Rightarrow> None
            | Some t \<Rightarrow> if t \<noteq> [] then Some t else None)
      else None)"

text \<open>
  The specification's words, not the code: the text of the first phonetic entry, in
  order, that carries a text.
\<close>

fun spec_first_available_text :: "Phonetic list \<Rightarrow> string option" where
  "spec_first_available_text [] = None"
| "spec_first_available_text (p # ps) =
     (case phonetic_text p of Some t \<Rightarrow> Some t | None \<Rightarrow> spec_first_available_text ps)"

text \<open>
  What is rendered for one definition (lines 235 to 265): its number, its text, and the
  optional lines for the example, the synonyms and the antonyms.
\<close>

record DefinitionView =
  view_number :: nat
  view_text :: string
  example_line :: "string option"
  synonyms_line :: "string option"
  antonyms_line :: "string option"

text \<open>
  Lines 247 to 263, for synonyms and antonyms alike:
  \<^verbatim>\<open>xs && xs.length > 0 && xs.slice(0, 5).join(', ')\<close>.
\<close>

definition terms_line :: "string list option \<Rightarrow> string option" where
  "terms_line terms =
     (case terms of
        None \<Rightarrow> None
      | Some xs \<Rightarrow> if length xs > 0 then Some (join '', '' (take 5 xs)) else None)"

definition render_definition :: "Definition \<Rightarrow> nat \<Rightarrow> DefinitionView" where
  "render_definition d defIndex =
     \<lparr>view_number = defIndex + 1,
      view_text = definition_text d,
      example_line =
        (case example d of None \<Rightarrow> None | Some e \<Rightarrow> if e \<noteq> [] then Some e else None),
      synonyms_line = terms_line (synonyms d),
      antonyms_line = terms_line (antonyms d)\<rparr>"

text \<open>\<^verbatim>\<open>meaning.definitions.map((definition, defIndex) => ...)\<close>, line 235.\<close>

definition render_definitions :: "Definition list \<Rightarrow> DefinitionView list" where
  "render_definitions ds =
     map (\<lambda>(defIndex, d). render_definition d defIndex) (enumerate 0 ds)"

text \<open>
  One meaning (lines 226 to 268): the label of the part of speech and the rendered
  definitions. The colour of the label is not part of the model.
\<close>

definition render_meaning :: "Meaning \<Rightarrow> string \<times> DefinitionView list" where
  "render_meaning m = (partOfSpeech m, render_definitions (definitions m))"

section \<open>Example values\<close>

definition hello_record :: WordData where
  "hello_record =
     \<lparr>word = ''hello'',
      phonetics = [\<lparr>phonetic_text = None, audio = Some ''https://example.org/hello.mp3''\<rparr>,
                   \<lparr>phonetic_text = Some ''/hello/'', audio = None\<rparr>],
      meanings = [], origin = None\<rparr>"

definition many_terms :: Definition where
  "many_terms =
     \<lparr>definition_text = ''used as a greeting'',
      example = Some ''hello there'',
      synonyms = Some [''hi'', ''hey'', ''howdy'', ''greetings'', ''welcome'', ''salute'', ''yo''],
      antonyms = Some [''bye'', ''goodbye'', ''farewell'', ''adieu'', ''ciao'', ''later'']\<rparr>"

text \<open>
  A run with two requests in flight: after one successful search the user clicks the
  recent search twice; the first request fails, then the second succeeds.
\<close>

definition overlapping_run :: "event list" where
  "overlapping_run =
     [Type ''hello'', Submit,
      Settle 0 (FetchResolves True (JsonResolves (JArray [hello_record]))),
      Recent 0, Recent 0,
      Settle 0 (FetchRejects TypeError),
      Settle 0 (FetchResolves True (JsonResolves (JArray [hello_record])))]"

text \<open>
  The same overlap, with the second request answered 2xx by the empty array.
\<close>

definition overlapping_empty_run :: "event list" where
  "overlapping_empty_run =
     [Type ''hello'', Submit,
      Settle 0 (FetchResolves True (JsonResolves (JArray [hello_record]))),
      Recent 0, Recent 0,
      Settle 0 (FetchRejects TypeError),
      Settle 0 (FetchResolves True (JsonResolves (JArray [])))]"

text \<open>A serial run: a successful search, then a misspelt one that the service rejects.\<close>

definition serial_run :: "event list" where
  "serial_run =
     [Type ''hello'', Submit,
      Settle 0 (FetchResolves True (JsonResolves (JArray [hello_record]))),
      Type ''helo'', Submit,
      Settle 0 (FetchResolves False (JsonRejects SyntaxError))]"

section \<open>Helper lemmas\<close>

lemma count_list_filter_neq: "count_list (filter (\<lambda>item. item \<noteq> w) xs) w = 0"
  by (induction xs) auto

lemma count_list_take_zero: "count_list xs w = 0 \<Longrightarrow> count_list (take n xs) w = 0"
proof (induction xs arbitrary: n)
  case Nil
  then show ?case by simp
next
  case (Cons x xs)
  then show ?case by (cases n) (auto split: if_splits)
qed

lemma filter_neq_removeAll: "filter (\<lambda>item. item \<noteq> w) prev = removeAll w prev"
  by (induction prev) auto

lemma updateSearchHistory_shape:
  "updateSearchHistory w prev = w # take 4 (removeAll w prev)"
  by (simp add: updateSearchHistory_def numeral_eq_Suc filter_neq_removeAll)

lemma mem_updateSearchHistory: "w \<in> set (updateSearchHistory w prev)"
  by (simp add: updateSearchHistory_shape)

text \<open>\<open>!word.trim()\<close> holds exactly for the empty term and the terms of white space only.\<close>

lemma trim_empty_iff: "trim s = [] \<longleftrightarrow> list_all is_js_whitespace s"
proof
  assume "trim s = []"
  then have a: "\<forall>c \<in> set (dropWhile is_js_whitespace s). is_js_whitespace c"
    by (simp add: trim_def dropWhile_eq_Nil_conv)
  show "list_all is_js_whitespace s"
  proof (cases "dropWhile is_js_whitespace s")
    case Nil
    then show ?thesis by (simp add: dropWhile_eq_Nil_conv list_all_iff)
  next
    case (Cons c cs)
    then have "\<not> is_js_whitespace c"
      by (metis hd_dropWhile list.distinct(1) list.sel(1))
    with a Cons show ?thesis by simp
  qed
next
  assume "list_all is_js_whitespace s"
  then show "trim s = []"
    by (auto simp: trim_def list_all_iff dest: set_dropWhileD)
qed

lemma map_index_enumerate:
  "map (\<lambda>(i, d). f i) (enumerate n ds) = map f [n..<n + length ds]"
proof (induction ds arbitrary: n)
  case Nil
  then show ?case by simp
next
  case (Cons d ds)
  have "[n..<n + length (d # ds)] = n # [Suc n..<Suc n + length ds]"
    by (subst upt_rec) simp
  with Cons show ?case by simp
qed

lemma map_item_enumerate:
  "map (\<lambda>(i, d). g d) (enumerate n ds) = map g ds"
  by (induction ds arbitrary: n) simp_all

subsection \<open>The invariant of serial runs\<close>

lemma call_searchWord_cases:
  "(call_searchWord w p = p \<and> trim w = []) \<or>
   (call_searchWord w p
      = \<lparr>ui = (ui p)\<lparr>loading := True, error := None\<rparr>, in_flight = in_flight p @ [w]\<rparr>
     \<and> trim w \<noteq> [])"
  by (simp add: call_searchWord_def searchWord_begin_def)

lemma settled_or_cleared_searchTerm:
  "settled_or_cleared (p\<lparr>ui := (ui p)\<lparr>searchTerm := t\<rparr>\<rparr>) = settled_or_cleared p"
  by (simp add: settled_or_cleared_def at_most_one_shown_def word_shown_def error_shown_def)

lemma settled_or_cleared_call:
  assumes "settled_or_cleared p"
  shows "settled_or_cleared (call_searchWord w p)"
  using assms call_searchWord_cases [of w p]
  by (auto simp: settled_or_cleared_def)

lemma settled_or_cleared_settle:
  assumes "settled_or_cleared p" and "length (in_flight p) \<le> 1" and "k < length (in_flight p)"
  shows "settled_or_cleared
     \<lparr>ui = searchWord_settle (in_flight p ! k) outcome (ui p),
      in_flight = take k (in_flight p) @ drop (Suc k) (in_flight p)\<rparr>"
proof -
  from assms have e: "error (ui p) = None" and k: "k = 0" and l: "length (in_flight p) = 1"
    by (auto simp: settled_or_cleared_def split: if_splits)
  from l have d: "drop (Suc 0) (in_flight p) = []" by simp
  show ?thesis
    using e k d
    by (auto simp: settled_or_cleared_def at_most_one_shown_def searchWord_settle_def
        word_shown_def error_shown_def split: sum.splits)
qed

lemma settled_or_cleared_step:
  assumes "settled_or_cleared p" and "length (in_flight p) \<le> 1"
  shows "settled_or_cleared (step e p)"
proof (cases e)
  case (Type t)
  with assms show ?thesis by (simp add: settled_or_cleared_searchTerm)
next
  case Submit
  with assms show ?thesis by (simp add: settled_or_cleared_call)
next
  case (Recent i)
  with assms show ?thesis
    by (simp add: settled_or_cleared_call settled_or_cleared_searchTerm Let_def)
next
  case (Settle k outcome)
  with assms settled_or_cleared_settle [of p k outcome] show ?thesis by simp
qed

lemma settled_or_cleared_run:
  "settled_or_cleared p \<Longrightarrow> serial es p \<Longrightarrow>
   settled_or_cleared (run es p) \<and> length (in_flight (run es p)) \<le> 1"
proof (induction es arbitrary: p)
  case Nil
  then show ?case by simp
next
  case (Cons e es)
  from Cons.prems have "settled_or_cleared (step e p)" and "serial es (step e p)"
    by (simp_all add: settled_or_cleared_step)
  then show ?case using Cons.IH by simp
qed

lemma settled_or_cleared_initial: "settled_or_cleared initial_page"
  by (simp add: settled_or_cleared_def initial_page_def initial_state_def at_most_one_shown_def
      word_shown_def)

subsection \<open>The invariant of the recent searches\<close>

lemma history_ok_update: "distinct prev \<Longrightarrow> history_ok (updateSearchHistory w prev)"
proof -
  assume d: "distinct prev"
  have "w \<notin> set (take 4 (removeAll w prev))"
    using set_take_subset [of 4 "removeAll w prev"] by auto
  moreover have "distinct (take 4 (removeAll w prev))"
    using d by (simp add: distinct_removeAll)
  ultimately show ?thesis
    by (simp add: history_ok_def updateSearchHistory_shape)
qed

lemma history_ok_settle:
  "history_ok (searchHistory s) \<Longrightarrow> history_ok (searchHistory (searchWord_settle w outcome s))"
proof -
  assume h: "history_ok (searchHistory s)"
  then have "distinct (searchHistory s)"
    by (simp add: history_ok_def)
  then have "history_ok (updateSearchHistory w (searchHistory s))"
    by (rule history_ok_update)
  with h show ?thesis
    by (simp add: searchWord_settle_def split: sum.splits)
qed

lemma searchHistory_call:
  "searchHistory (ui (call_searchWord w p)) = searchHistory (ui p)"
  using call_searchWord_cases [of w p] by auto

lemma history_ok_step:
  "history_ok (searchHistory (ui p)) \<Longrightarrow> history_ok (searchHistory (ui (step e p)))"
  by (cases e) (simp_all add: searchHistory_call history_ok_settle Let_def)

lemma history_ok_run:
  "history_ok (searchHistory (ui p)) \<Longrightarrow> history_ok (searchHistory (ui (run es p)))"
  by (induction es arbitrary: p) (simp_all add: history_ok_step)

lemma history_ok_initial: "history_ok (searchHistory (ui initial_page))"
  by (simp add: history_ok_def initial_page_def initial_state_def)

section \<open>The recent-searches list is deduplicated and capped\<close>

text \<open>
  Claim C1. For every history list and every term, recording the term puts it at the
  front, drops every earlier occurrence of exactly that term (so the term occurs once),
  keeps the other entries in their order, and cuts the result to its first five entries;
  so the list never has more than five entries: along every run of the page from its
  initial state the history has at most five entries and no entry twice. The two
  examples of the specification evaluate as stated.
\<close>

theorem updateSearchHistory_front_dedup_cap:
  "hd (updateSearchHistory w prev) = w
   \<and> count_list (updateSearchHistory w prev) w = 1
   \<and> tl (updateSearchHistory w prev) = take 4 (removeAll w prev)
   \<and> length (updateSearchHistory w prev) \<le> 5
   \<and> length (searchHistory (ui (run es initial_page))) \<le> 5
   \<and> distinct (searchHistory (ui (run es initial_page)))
   \<and> updateSearchHistory ''a'' [''b'', ''a'', ''c'', ''d'', ''e'']
       = [''a'', ''b'', ''c'', ''d'', ''e'']
   \<and> updateSearchHistory ''f'' [''e'', ''d'', ''c'', ''b'', ''a'']
       = [''f'', ''e'', ''d'', ''c'', ''b'']"
proof -
  have five: "(5::nat) = Suc 4" by simp
  have shape: "updateSearchHistory w prev = w # take 4 (filter (\<lambda>item. item \<noteq> w) prev)"
    unfolding updateSearchHistory_def five by simp
  have once: "count_list (take 4 (filter (\<lambda>item. item \<noteq> w) prev)) w = 0"
    by (rule count_list_take_zero) (rule count_list_filter_neq)
  have ex1: "updateSearchHistory ''a'' [''b'', ''a'', ''c'', ''d'', ''e'']
       = [''a'', ''b'', ''c'', ''d'', ''e'']"
    by (simp add: updateSearchHistory_def)
  have ex2: "updateSearchHistory ''f'' [''e'', ''d'', ''c'', ''b'', ''a'']
       = [''f'', ''e'', ''d'', ''c'', ''b'']"
    by (simp add: updateSearchHistory_def)
  have inv: "length (searchHistory (ui (run es initial_page))) \<le> 5
      \<and> distinct (searchHistory (ui (run es initial_page)))"
    using history_ok_run [OF history_ok_initial, of es] by (simp add: history_ok_def)
  show ?thesis
    using once ex1 ex2 inv by (simp add: shape filter_neq_removeAll)
qed

section \<open>Loading at startup\<close>

text \<open>
  Claim C2, as the code has it. At startup, a missing key and an empty stored text leave
  the history the empty list, and nothing is thrown. A stored text that \<open>JSON.parse\<close>
  rejects makes the effect throw a \<open>SyntaxError\<close>, which nothing catches; a stored text
  that parses sets the history to the parsed list.
\<close>

theorem load_history_missing_or_unparsable:
  "load_history None parsed initial_state = Inr initial_state
   \<and> load_history (Some []) parsed initial_state = Inr initial_state
   \<and> searchHistory initial_state = []
   \<and> (stored \<noteq> [] \<longrightarrow>
        load_history (Some stored) ParseThrows initial_state = Inl SyntaxError
      \<and> load_history (Some stored) (ParseReturns v) initial_state
          = Inr (initial_state\<lparr>searchHistory := v\<rparr>))"
  by (simp add: load_history_def initial_state_def)

theorem load_history_missing_or_unparsable_witness:
  "''[\"hello\",\"world\"]'' \<noteq> []
   \<and> load_history (Some ''[\"hello\",\"world\"]'') (ParseReturns [''hello'', ''world''])
        initial_state
       = Inr (initial_state\<lparr>searchHistory := [''hello'', ''world'']\<rparr>)
   \<and> load_history (Some ''[\"hello\",\"world\"]'') ParseThrows initial_state = Inl SyntaxError"
  using load_history_missing_or_unparsable
    [of ParseThrows "''[\"hello\",\"world\"]''" "[''hello'', ''world'']"]
  by simp

text \<open>
  The claim as stated fails on a corrupt value: with the truncated text \<open>["hello",\<close>
  under the key, \<open>JSON.parse\<close> throws and so does the effect; the load does not end with
  the empty list.
\<close>

theorem load_history_corrupt_throws:
  "load_history (Some ''[\"hello\",'') ParseThrows initial_state = Inl SyntaxError
   \<and> load_history (Some ''[\"hello\",'') ParseThrows initial_state \<noteq> Inr initial_state"
  by (simp add: load_history_def)

section \<open>One call of searchWord\<close>



text \<open>
  Claim C4. For every term that is empty or consists of white space only, \<open>searchWord\<close>
  issues no request and leaves the whole state (term, record, error, loading, history)
  as it was.
\<close>

theorem searchWord_blank_noop:
  assumes "list_all is_js_whitespace w"
  shows "searchWord_begin w s = (s, None) \<and> searchWord w outcome s = (s, None)"
  using assms by (simp add: searchWord_def searchWord_begin_def trim_empty_iff)

theorem searchWord_blank_noop_witness:
  "list_all is_js_whitespace [CHR '' '', CHR 0x09, CHR 0xA0]
   \<and> searchWord [CHR '' '', CHR 0x09, CHR 0xA0]
        (FetchResolves True (JsonResolves (JArray [hello_record]))) initial_state
       = (initial_state, None)
   \<and> searchWord [] (FetchResolves True (JsonResolves (JArray [hello_record]))) initial_state
       = (initial_state, None)"
proof -
  have h: "list_all is_js_whitespace [CHR '' '', CHR 0x09, CHR 0xA0]"
    by (simp add: is_js_whitespace_def)
  have e: "list_all is_js_whitespace []" by simp
  show ?thesis
    using h searchWord_blank_noop [OF h] searchWord_blank_noop [OF e] by simp
qed

section \<open>Record and error on the page\<close>

text \<open>
  Claim C5, as the code has it. Every search with a term that is not blank clears the
  error before its request is issued, so before the answer arrives; and in every state
  reached by a serial run from the initial page (no search starts while another is in
  flight) the page shows at most one of the record and the error.
\<close>

theorem serial_runs_show_at_most_one:
  "(trim w \<noteq> [] \<longrightarrow>
      error (fst (searchWord_begin w s)) = None
      \<and> snd (searchWord_begin w s) = Some (request_url w))
   \<and> (serial es initial_page \<longrightarrow> at_most_one_shown (ui (run es initial_page)))"
proof -
  have "at_most_one_shown (ui (run es initial_page))" if s: "serial es initial_page"
  proof -
    from settled_or_cleared_run [OF settled_or_cleared_initial s]
    have "settled_or_cleared (run es initial_page)" by simp
    then show ?thesis
      by (auto simp: settled_or_cleared_def at_most_one_shown_def error_shown_def
          split: if_splits)
  qed
  then show ?thesis by (simp add: searchWord_begin_def)
qed

theorem serial_runs_show_at_most_one_witness:
  "trim ''helo'' \<noteq> [] \<and> serial serial_run initial_page
   \<and> error_shown (ui (run serial_run initial_page))
   \<and> \<not> word_shown (ui (run serial_run initial_page))"
proof -
  have t: "trim ''helo'' \<noteq> []"
    by (simp add: trim_def is_js_whitespace_def)
  have s: "serial serial_run initial_page"
    by (simp add: serial_run_def initial_page_def initial_state_def
        submit_disabled_def call_searchWord_def searchWord_begin_def
        searchWord_settle_def trim_def is_js_whitespace_def Let_def)
  have e: "error_shown (ui (run serial_run initial_page))"
    by (simp add: serial_run_def initial_page_def initial_state_def
        submit_disabled_def call_searchWord_def searchWord_begin_def error_shown_def
        searchWord_settle_def trim_def is_js_whitespace_def not_found_message_def Let_def)
  from serial_runs_show_at_most_one [of "''helo''" initial_state serial_run] t s e
  show ?thesis by (simp add: at_most_one_shown_def)
qed

text \<open>
  The claim as stated fails on a reachable state: the buttons of the recent searches stay
  enabled while a request is in flight, so two requests can overlap. When the first one
  fails and the second one then succeeds, the page shows the record and the error at once.
\<close>

theorem overlapping_run_shows_both:
  "word_shown (ui (run overlapping_run initial_page))
   \<and> error_shown (ui (run overlapping_run initial_page))
   \<and> \<not> at_most_one_shown (ui (run overlapping_run initial_page))"
  by (simp add: overlapping_run_def initial_page_def initial_state_def at_most_one_shown_def
      word_shown_def error_shown_def submit_disabled_def call_searchWord_def
      searchWord_begin_def searchWord_settle_def trim_def is_js_whitespace_def
      updateSearchHistory_def not_found_message_def Let_def)

section \<open>A successful lookup\<close>

text \<open>
  Claim C6, as the code has it. For every term, the request, when one is issued (the term
  is not blank), goes to the fixed address followed by the term in lower case. When the
  service answers 2xx with an array whose first entry is \<open>r\<close>, the rest of the call sets
  \<open>r\<close> as the record, adds the term, as typed, to the history by the updater of claim C1,
  sets \<open>loading\<close> to false, and leaves the error as it is at that moment, in every state
  and for every pending request of the page. The error was cleared when the call began;
  so a call that runs to its end with nothing settling in between ends with no error.
\<close>

theorem searchWord_success:
  "snd (searchWord w outcome s) =
     (if trim w = [] then None
      else Some (''https://api.dictionaryapi.dev/api/v2/entries/en/'' @ toLowerCase w))
   \<and> wordData (searchWord_settle w (FetchResolves True (JsonResolves (JArray (r # rs)))) s)
        = Record r
   \<and> searchHistory (searchWord_settle w (FetchResolves True (JsonResolves (JArray (r # rs)))) s)
        = updateSearchHistory w (searchHistory s)
   \<and> w \<in> set (searchHistory
         (searchWord_settle w (FetchResolves True (JsonResolves (JArray (r # rs)))) s))
   \<and> loading (searchWord_settle w (FetchResolves True (JsonResolves (JArray (r # rs)))) s)
        = False
   \<and> error (searchWord_settle w (FetchResolves True (JsonResolves (JArray (r # rs)))) s)
        = error s
   \<and> (k < length (in_flight p) \<longrightarrow>
        error (ui (step (Settle k (FetchResolves True (JsonResolves (JArray (r # rs))))) p))
          = error (ui p)
        \<and> wordData (ui (step (Settle k (FetchResolves True (JsonResolves (JArray (r # rs))))) p))
          = Record r)
   \<and> (trim w \<noteq> [] \<longrightarrow>
      wordData (fst (searchWord w (FetchResolves True (JsonResolves (JArray (r # rs)))) s))
        = Record r
    \<and> error (fst (searchWord w (FetchResolves True (JsonResolves (JArray (r # rs)))) s))
        = None
    \<and> searchHistory (fst (searchWord w (FetchResolves True (JsonResolves (JArray (r # rs)))) s))
        = updateSearchHistory w (searchHistory s)
    \<and> w \<in> set (searchHistory
          (fst (searchWord w (FetchResolves True (JsonResolves (JArray (r # rs)))) s)))
    \<and> loading (fst (searchWord w (FetchResolves True (JsonResolves (JArray (r # rs)))) s))
        = False)"
  by (simp add: searchWord_def searchWord_begin_def searchWord_settle_def request_url_def
      mem_updateSearchHistory)

theorem searchWord_success_witness:
  "trim ''Hello'' \<noteq> []
   \<and> searchWord ''Hello''
        (FetchResolves True
          (JsonResolves (JArray [hello_record, hello_record\<lparr>word := ''hallo''\<rparr>])))
        \<lparr>searchTerm = ''Hello'', wordData = Null, loading = False,
         error = Some not_found_message, searchHistory = [''cat'', ''Hello'']\<rparr>
     = (\<lparr>searchTerm = ''Hello'', wordData = Record hello_record, loading = False,
         error = None, searchHistory = [''Hello'', ''cat'']\<rparr>,
        Some ''https://api.dictionaryapi.dev/api/v2/entries/en/hello'')
   \<and> (0::nat) < length (in_flight
        \<lparr>ui = \<lparr>searchTerm = ''Hello'', wordData = Null, loading = False,
              error = Some not_found_message, searchHistory = [''cat'', ''Hello'']\<rparr>,
         in_flight = [''Hello'']\<rparr>)
   \<and> error (ui (step
        (Settle 0 (FetchResolves True
          (JsonResolves (JArray [hello_record, hello_record\<lparr>word := ''hallo''\<rparr>]))))
        \<lparr>ui = \<lparr>searchTerm = ''Hello'', wordData = Null, loading = False,
              error = Some not_found_message, searchHistory = [''cat'', ''Hello'']\<rparr>,
         in_flight = [''Hello'']\<rparr>))
     = Some not_found_message"
proof -
  let ?o = "FetchResolves True
     (JsonResolves (JArray [hello_record, hello_record\<lparr>word := ''hallo''\<rparr>]))"
  let ?s = "\<lparr>searchTerm = ''Hello'', wordData = Null, loading = False,
     error = Some not_found_message, searchHistory = [''cat'', ''Hello'']\<rparr>"
  let ?p = "\<lparr>ui = ?s, in_flight = [''Hello'']\<rparr>"
  have t: "trim ''Hello'' \<noteq> []"
    by (simp add: trim_def is_js_whitespace_def)
  have k: "(0::nat) < length (in_flight ?p)"
    by simp
  have l: "toLowerCase ''Hello'' = ''hello''"
    by code_simp
  have h: "updateSearchHistory ''Hello'' [''cat'', ''Hello''] = [''Hello'', ''cat'']"
    by (simp add: updateSearchHistory_def)
  note r = searchWord_success
    [of "''Hello''" ?o ?s hello_record "[hello_record\<lparr>word := ''hallo''\<rparr>]" 0 ?p]
  have st: "searchTerm (fst (searchWord ''Hello'' ?o ?s)) = ''Hello''"
    using t by (simp add: searchWord_def searchWord_begin_def searchWord_settle_def)
  have f: "fst (searchWord ''Hello'' ?o ?s)
      = \<lparr>searchTerm = ''Hello'', wordData = Record hello_record, loading = False,
         error = None, searchHistory = [''Hello'', ''cat'']\<rparr>"
    using t r st h by (intro ui_state.equality) simp_all
  have g: "snd (searchWord ''Hello'' ?o ?s)
      = Some ''https://api.dictionaryapi.dev/api/v2/entries/en/hello''"
    using t r l by simp
  have e: "error (ui (step (Settle 0 ?o) ?p)) = Some not_found_message"
    using k r by simp
  show ?thesis
    using t f g k e by (simp add: prod_eq_iff)
qed

text \<open>
  The claim as stated fails on a reachable run: the success path never sets the error.
  In \<open>overlapping_run\<close> the last event is the 2xx answer, with a record, to a search for
  \<open>hello\<close> that is still in flight; an overlapping search has failed after it began, and
  the successful search ends with the record set and the error still set.
\<close>

theorem success_leaves_error_set:
  "in_flight (run (butlast overlapping_run) initial_page) = [''hello'']
   \<and> last overlapping_run
       = Settle 0 (FetchResolves True (JsonResolves (JArray [hello_record])))
   \<and> wordData (ui (run overlapping_run initial_page)) = Record hello_record
   \<and> error (ui (run overlapping_run initial_page)) = Some not_found_message
   \<and> error (ui (run overlapping_run initial_page)) \<noteq> None"
  by (simp add: overlapping_run_def initial_page_def initial_state_def submit_disabled_def
      call_searchWord_def searchWord_begin_def searchWord_settle_def trim_def
      is_js_whitespace_def updateSearchHistory_def not_found_message_def Let_def)

section \<open>What the renderer shows\<close>

text \<open>
  Claim C7, as the code has it. The phonetic spelling shown is the text of the first
  phonetic entry, when there is a first entry and its text is present and not empty;
  then it is also the first available text. When the first entry has no text, no
  phonetic spelling is shown, whatever the later entries carry.
\<close>

theorem phonetic_shown_first_entry_only:
  "phonetic_shown w =
     (case phonetics w of
        [] \<Rightarrow> None
      | p # ps \<Rightarrow> (case phonetic_text p of
                     None \<Rightarrow> None
                   | Some t \<Rightarrow> if t = [] then None else Some t))
   \<and> (phonetics w = p # ps \<and> phonetic_text p = Some t \<and> t \<noteq> [] \<longrightarrow>
        phonetic_shown w = Some t
        \<and> phonetic_shown w = spec_first_available_text (phonetics w))
   \<and> (phonetics w = p # ps \<and> phonetic_text p = None \<longrightarrow> phonetic_shown w = None)"
  by (auto simp: phonetic_shown_def split: list.splits option.splits)

theorem phonetic_shown_first_entry_only_witness:
  "phonetics (hello_record\<lparr>phonetics := rev (phonetics hello_record)\<rparr>)
     = \<lparr>phonetic_text = Some ''/hello/'', audio = None\<rparr>
       # [\<lparr>phonetic_text = None, audio = Some ''https://example.org/hello.mp3''\<rparr>]
   \<and> phonetic_shown (hello_record\<lparr>phonetics := rev (phonetics hello_record)\<rparr>)
       = Some ''/hello/''
   \<and> phonetic_shown hello_record = None"
proof -
  have a: "phonetics (hello_record\<lparr>phonetics := rev (phonetics hello_record)\<rparr>)
     = \<lparr>phonetic_text = Some ''/hello/'', audio = None\<rparr>
       # [\<lparr>phonetic_text = None, audio = Some ''https://example.org/hello.mp3''\<rparr>]"
    by (simp add: hello_record_def)
  have b: "phonetics hello_record
     = \<lparr>phonetic_text = None, audio = Some ''https://example.org/hello.mp3''\<rparr>
       # [\<lparr>phonetic_text = Some ''/hello/'', audio = None\<rparr>]"
    by (simp add: hello_record_def)
  from phonetic_shown_first_entry_only
      [of "hello_record\<lparr>phonetics := rev (phonetics hello_record)\<rparr>"
        "\<lparr>phonetic_text = Some ''/hello/'', audio = None\<rparr>"
        "[\<lparr>phonetic_text = None, audio = Some ''https://example.org/hello.mp3''\<rparr>]"
        "''/hello/''"]
    phonetic_shown_first_entry_only
      [of hello_record
        "\<lparr>phonetic_text = None, audio = Some ''https://example.org/hello.mp3''\<rparr>"
        "[\<lparr>phonetic_text = Some ''/hello/'', audio = None\<rparr>]"]
    a b
  show ?thesis by simp
qed

text \<open>
  The claim as stated fails when an earlier entry lacks the text: the first entry of
  \<open>hello_record\<close> carries only audio and the second one the text \<open>/hello/\<close>; the first
  available text is \<open>/hello/\<close>, and the page shows none.
\<close>

theorem phonetic_shown_skips_later_text:
  "phonetic_shown hello_record = None
   \<and> spec_first_available_text (phonetics hello_record) = Some ''/hello/''
   \<and> phonetic_shown hello_record \<noteq> spec_first_available_text (phonetics hello_record)"
  by (simp add: phonetic_shown_def hello_record_def)

text \<open>
  Claim C8. The definitions of a meaning are rendered in their order and numbered
  \<open>1, 2, ..., n\<close>; the numbers come from the position alone. A list of synonyms, or of
  antonyms, with more than five entries is shown as its first five entries, in their
  order, joined by a comma and a space.
\<close>

theorem definitions_numbered_terms_capped:
  "map view_number (render_definitions ds) = [1..<Suc (length ds)]
   \<and> map view_text (render_definitions ds) = map definition_text ds
   \<and> map view_number (snd (render_meaning m)) = [1..<Suc (length (definitions m))]
   \<and> (synonyms d = Some xs \<and> 5 < length xs \<longrightarrow>
        synonyms_line (render_definition d i) = Some (join '', '' (take 5 xs))
        \<and> length (take 5 xs) = 5)
   \<and> (antonyms d = Some ys \<and> 5 < length ys \<longrightarrow>
        antonyms_line (render_definition d i) = Some (join '', '' (take 5 ys))
        \<and> length (take 5 ys) = 5)"
proof -
  have n: "map view_number (render_definitions ds') = [1..<Suc (length ds')]" for ds'
  proof -
    have "map view_number (render_definitions ds')
        = map (\<lambda>(i, d). Suc i) (enumerate 0 ds')"
      by (simp add: render_definitions_def render_definition_def split_def)
    also have "\<dots> = map Suc [0..<0 + length ds']"
      by (rule map_index_enumerate)
    also have "\<dots> = [1..<Suc (length ds')]"
      by (simp add: map_Suc_upt)
    finally show ?thesis .
  qed
  have t: "map view_text (render_definitions ds) = map definition_text ds"
  proof -
    have "map view_text (render_definitions ds)
        = map (\<lambda>(i, d). definition_text d) (enumerate 0 ds)"
      by (simp add: render_definitions_def render_definition_def split_def)
    then show ?thesis by (simp only: map_item_enumerate)
  qed
  show ?thesis
    using n [of ds] n [of "definitions m"] t
    by (auto simp: render_definition_def terms_line_def render_meaning_def)
qed

theorem definitions_numbered_terms_capped_witness:
  "synonyms many_terms
     = Some [''hi'', ''hey'', ''howdy'', ''greetings'', ''welcome'', ''salute'', ''yo'']
   \<and> antonyms many_terms
     = Some [''bye'', ''goodbye'', ''farewell'', ''adieu'', ''ciao'', ''later'']
   \<and> synonyms_line (render_definition many_terms 0) = Some ''hi, hey, howdy, greetings, welcome''
   \<and> antonyms_line (render_definition many_terms 0) = Some ''bye, goodbye, farewell, adieu, ciao''
   \<and> map view_number (render_definitions [many_terms, many_terms, many_terms]) = [1, 2, 3]"
proof -
  note r = definitions_numbered_terms_capped [of "[many_terms, many_terms, many_terms]"
      "\<lparr>partOfSpeech = ''interjection'', definitions = [many_terms]\<rparr>" many_terms
      "[''hi'', ''hey'', ''howdy'', ''greetings'', ''welcome'', ''salute'', ''yo'']" 0
      "[''bye'', ''goodbye'', ''farewell'', ''adieu'', ''ciao'', ''later'']"]
  have s: "synonyms many_terms
      = Some [''hi'', ''hey'', ''howdy'', ''greetings'', ''welcome'', ''salute'', ''yo'']"
    and a: "antonyms many_terms
      = Some [''bye'', ''goodbye'', ''farewell'', ''adieu'', ''ciao'', ''later'']"
    by (simp_all add: many_terms_def)
  have u: "[1..<Suc (length [many_terms, many_terms, many_terms])] = [1, 2, 3]"
    by (simp add: upt_conv_Cons)
  show ?thesis
    using r s a u by simp
qed

section \<open>An empty answer\<close>

text \<open>
  Claim C9, as the code has it. When the service answers 2xx with a body that parses to
  the empty array, the search takes the success path: the record becomes \<open>undefined\<close>,
  so that no record is shown, and the term is still added to the history. The error is
  left as it is at that moment, in every state; a call that runs to its end with nothing
  settling in between ends with no error shown either.
\<close>

theorem searchWord_empty_array:
  "wordData (searchWord_settle w (FetchResolves True (JsonResolves (JArray []))) s) = Undefined
   \<and> \<not> word_shown (searchWord_settle w (FetchResolves True (JsonResolves (JArray []))) s)
   \<and> searchHistory (searchWord_settle w (FetchResolves True (JsonResolves (JArray []))) s)
        = updateSearchHistory w (searchHistory s)
   \<and> w \<in> set (searchHistory
         (searchWord_settle w (FetchResolves True (JsonResolves (JArray []))) s))
   \<and> error (searchWord_settle w (FetchResolves True (JsonResolves (JArray []))) s) = error s
   \<and> error_shown (searchWord_settle w (FetchResolves True (JsonResolves (JArray []))) s)
        = error_shown s
   \<and> (trim w \<noteq> [] \<longrightarrow>
      wordData (fst (searchWord w (FetchResolves True (JsonResolves (JArray []))) s))
        = Undefined
    \<and> \<not> word_shown (fst (searchWord w (FetchResolves True (JsonResolves (JArray []))) s))
    \<and> \<not> error_shown (fst (searchWord w (FetchResolves True (JsonResolves (JArray []))) s))
    \<and> searchHistory (fst (searchWord w (FetchResolves True (JsonResolves (JArray []))) s))
        = updateSearchHistory w (searchHistory s)
    \<and> w \<in> set (searchHistory
          (fst (searchWord w (FetchResolves True (JsonResolves (JArray []))) s))))"
  by (simp add: searchWord_def searchWord_begin_def searchWord_settle_def
      word_shown_def error_shown_def mem_updateSearchHistory)

theorem searchWord_empty_array_witness:
  "trim ''zzz'' \<noteq> []
   \<and> fst (searchWord ''zzz'' (FetchResolves True (JsonResolves (JArray [])))
        \<lparr>searchTerm = ''zzz'', wordData = Record hello_record, loading = False,
         error = Some not_found_message, searchHistory = [''hello'']\<rparr>)
     = \<lparr>searchTerm = ''zzz'', wordData = Undefined, loading = False,
         error = None, searchHistory = [''zzz'', ''hello'']\<rparr>
   \<and> error_shown (searchWord_settle ''zzz'' (FetchResolves True (JsonResolves (JArray [])))
        \<lparr>searchTerm = ''zzz'', wordData = Record hello_record, loading = False,
         error = Some not_found_message, searchHistory = [''hello'']\<rparr>)"
proof -
  let ?o = "FetchResolves True (JsonResolves (JArray []))"
  let ?s = "\<lparr>searchTerm = ''zzz'', wordData = Record hello_record, loading = False,
     error = Some not_found_message, searchHistory = [''hello'']\<rparr>"
  have t: "trim ''zzz'' \<noteq> []"
    by (simp add: trim_def is_js_whitespace_def)
  have h: "updateSearchHistory ''zzz'' [''hello''] = [''zzz'', ''hello'']"
    by (simp add: updateSearchHistory_def)
  have sh: "error_shown ?s"
    by (simp add: error_shown_def not_found_message_def)
  note r = searchWord_empty_array [of "''zzz''" ?s]
  have rest: "searchTerm (fst (searchWord ''zzz'' ?o ?s)) = ''zzz''
     \<and> loading (fst (searchWord ''zzz'' ?o ?s)) = False
     \<and> error (fst (searchWord ''zzz'' ?o ?s)) = None"
    using t by (simp add: searchWord_def searchWord_begin_def searchWord_settle_def)
  have f: "fst (searchWord ''zzz'' ?o ?s)
      = \<lparr>searchTerm = ''zzz'', wordData = Undefined, loading = False,
         error = None, searchHistory = [''zzz'', ''hello'']\<rparr>"
    using t r rest h by (intro ui_state.equality) simp_all
  have e: "error_shown (searchWord_settle ''zzz'' ?o ?s)"
    using r sh by simp
  show ?thesis
    using t f e by simp
qed

text \<open>
  The claim as stated fails on a reachable run: in \<open>overlapping_empty_run\<close> a search for
  \<open>hello\<close> is in flight when an overlapping search fails; its own answer, 2xx with the
  empty array, then leaves the record \<open>undefined\<close> and the error box on the page.
\<close>

theorem empty_answer_leaves_error_shown:
  "in_flight (run (butlast overlapping_empty_run) initial_page) = [''hello'']
   \<and> last overlapping_empty_run = Settle 0 (FetchResolves True (JsonResolves (JArray [])))
   \<and> wordData (ui (run overlapping_empty_run initial_page)) = Undefined
   \<and> error_shown (ui (run overlapping_empty_run initial_page))"
  by (simp add: overlapping_empty_run_def initial_page_def initial_state_def
      submit_disabled_def call_searchWord_def searchWord_begin_def searchWord_settle_def
      trim_def is_js_whitespace_def updateSearchHistory_def not_found_message_def
      error_shown_def Let_def)

section \<open>Case of the term\<close>


end
